theory Spec2Isabelle
  imports Main "HOL-Library.AList" "HOL-Library.Sublist" "HOL-Library.Word"
begin

section \<open>Data model of package linter\<close>

subsection \<open>Go error values\<close>

text \<open>
  A Go \<open>error\<close> is an interface value. The linter only ever asks two things of one:
  whether its dynamic type is \<open>ConfigError\<close> (config.go, \<open>type ConfigError string\<close>) and
  what its \<open>Error()\<close> text is. \<open>OtherError s\<close> stands for an error of any other dynamic
  type whose \<open>Error()\<close> method returns \<open>s\<close> (a regexp parse failure, a workspace error,
  the value built by \<open>fmt.Errorf\<close>).
\<close>

datatype error = ConfigError string | OtherError string

fun Error :: "error \<Rightarrow> string" where
  "Error (ConfigError ce) = ce"
| "Error (OtherError s) = s"

text \<open>Run-time panics of the Go code that the model keeps as values.\<close>

datatype panic = NilPointerDereference | NilFunctionCall

subsection \<open>Severity and Options (config.go)\<close>

type_synonym Severity = string

definition SeverityError :: Severity where
  "SeverityError = ''error''"

definition SeverityWarning :: Severity where
  "SeverityWarning = ''warning''"

text \<open>
  \<open>ProblemSeverity\<close> is a Go \<open>map[string]Severity\<close>. It is kept as an association list
  written with \<open>AList.update\<close> (one entry per key, a second write replaces the value) and
  read with \<open>map_of\<close>. Go leaves the order in which \<open>range\<close> visits a map open; the
  model visits the entries in list order.
\<close>

record Options =
  ProblemSeverity :: "(string \<times> Severity) list"
  AllowedCharSets :: "string list"
  AllowedEngines :: "string list"

subsection \<open>Statements, annotations and results (linter.go)\<close>

text \<open>
  Go's \<open>int\<close> is taken as a signed 64-bit integer: \<open>+\<close> wraps, \<open>sint\<close> reads the value.
\<close>

type_synonym go_int = "64 word"

datatype ObjectType = ObjectTypeDatabase | ObjectTypeTable | ObjectTypeProc | ObjectTypeFunc

record ObjectKey =
  Type :: ObjectType
  Name :: string

text \<open>The fields of \<open>fs.Statement\<close> that package linter reads.\<close>

record Statement =
  File :: string
  LineNo :: go_int
  CharNo :: go_int
  Text :: string

text \<open>\<open>Annotation.Statement\<close> is a pointer \<open>*fs.Statement\<close>: \<open>None\<close> is the nil pointer.\<close>

record Annotation =
  Statement :: "Statement option"
  LineOffset :: go_int
  Summary :: string
  Message :: string

record Result =
  Errors :: "Annotation list"
  Warnings :: "Annotation list"
  FormatNotices :: "Annotation list"
  DebugLogs :: "string list"
  Exceptions :: "error list"

section \<open>Formatting helpers\<close>

text \<open>The verb \<open>%d\<close> of \<open>fmt.Sprintf\<close>: decimal digits, with a minus sign when negative.\<close>

definition digitChar :: "nat \<Rightarrow> char" where
  "digitChar d = ''0123456789'' ! d"

fun digits :: "nat \<Rightarrow> string" where
  "digits n = (if n < 10 then [digitChar n] else digits (n div 10) @ [digitChar (n mod 10)])"

declare digits.simps [simp del]

definition fmt_d :: "go_int \<Rightarrow> string" where
  "fmt_d i = (if sint i < 0 then ''-'' @ digits (nat (- sint i)) else digits (nat (sint i)))"

section \<open>Annotation.MessageWithLocation\<close>

definition MessageWithLocation :: "Annotation \<Rightarrow> panic + string" where
  "MessageWithLocation a =
     (case Statement a of
        None \<Rightarrow> Inl NilPointerDereference
      | Some stmt \<Rightarrow>
          if File stmt = '''' \<or> LineNo stmt = 0 then
            Inr (Message a @ '' [Full SQL: '' @ Text stmt @ '']'')
          else if LineOffset a = 0 \<and> 1 <s CharNo stmt then
            Inr (File stmt @ '':'' @ fmt_d (LineNo stmt) @ '':'' @ fmt_d (CharNo stmt) @ '': ''
                 @ Message a)
          else
            Inr (File stmt @ '':'' @ fmt_d (LineNo stmt + LineOffset a) @ '': '' @ Message a))"

section \<open>Result.Merge and BadConfigResult\<close>

text \<open>
  \<open>Merge\<close> updates the receiver in place; the model returns the receiver's new value.
  \<open>other\<close> is only read.
\<close>

definition Merge :: "Result \<Rightarrow> Result \<Rightarrow> Result" where
  "Merge r other =
     r\<lparr> Errors := Errors r @ Errors other,
        Warnings := Warnings r @ Warnings other,
        FormatNotices := FormatNotices r @ FormatNotices other,
        DebugLogs := DebugLogs r @ DebugLogs other,
        Exceptions := Exceptions r @ Exceptions other \<rparr>"

text \<open>The zero value \<open>&Result{}\<close>: every slice is nil, that is, empty.\<close>

definition emptyResult :: Result where
  "emptyResult =
     \<lparr> Errors = [], Warnings = [], FormatNotices = [], DebugLogs = [], Exceptions = [] \<rparr>"

definition BadConfigResult :: "error \<Rightarrow> Result" where
  "BadConfigResult err =
     (let err' = (case err of ConfigError _ \<Rightarrow> err | OtherError _ \<Rightarrow> ConfigError (Error err))
      in emptyResult\<lparr> Exceptions := [err'] \<rparr>)"

section \<open>Collaborators of the linter\<close>

text \<open>
  A compiled \<open>*regexp.Regexp\<close>: the text its \<open>String()\<close> method returns and its
  \<open>MatchString\<close> method. A variable of type \<open>*regexp.Regexp\<close> is a \<open>Regexp option\<close>,
  \<open>None\<close> being nil.
\<close>

datatype Regexp = Regexp (rx_String: string) (MatchString: "string \<Rightarrow> bool")

text \<open>
  \<open>ignore != nil && ignore.MatchString(name)\<close>, the guard LintDir writes for both of its
  optional patterns.
\<close>

fun nonNilAndMatches :: "Regexp option \<Rightarrow> string \<Rightarrow> bool" where
  "nonNilAndMatches None name = False"
| "nonNilAndMatches (Some rx) name = MatchString rx name"

text \<open>
  The verb \<open>%s\<close> of \<open>fmt.Sprintf\<close> on a \<open>*regexp.Regexp\<close>: the \<open>String()\<close> text; for
  a nil pointer fmt prints \<open><nil>\<close>.
\<close>

fun fmt_s_Regexp :: "Regexp option \<Rightarrow> string" where
  "fmt_s_Regexp None = ''<nil>''"
| "fmt_s_Regexp (Some rx) = rx_String rx"

text \<open>
  \<open>mybase.Config\<close> as the linter uses it: \<open>GetSlice(name, delimiter, unwrapFully)\<close> and
  \<open>GetRegexp(name)\<close>, which returns a nil pattern for a blank option and an error for a
  pattern that does not compile.
\<close>

record Config =
  GetSlice :: "string \<Rightarrow> char \<Rightarrow> bool \<Rightarrow> string list"
  GetRegexp :: "string \<Rightarrow> error + Regexp option"

text \<open>
  \<open>fs.LogicalSchema\<close>: \<open>Creates\<close> is a Go map from object key to \<open>*fs.Statement\<close>; a
  missing key reads as the nil pointer \<open>None\<close>.
\<close>

record LogicalSchema =
  Creates :: "ObjectKey \<Rightarrow> Statement option"

record Dir =
  Config :: Config
  RelPath :: string
  LogicalSchemas :: "LogicalSchema list"

text \<open>
  \<open>workspace.StatementError\<close>: the statement that failed, with the object type and name
  LintDir reads from it, and the underlying error.
\<close>

record StatementError =
  ObjectType :: ObjectType
  ObjectName :: string
  se_Statement :: "Statement option"
  Err :: error

definition ObjectKey_of :: "StatementError \<Rightarrow> ObjectKey" where
  "ObjectKey_of stmtErr = \<lparr> Type = ObjectType stmtErr, Name = ObjectName stmtErr \<rparr>"

text \<open>
  What LintDir and OptionsForDir call outside package linter's two files, taken as
  parameters. \<open>'s\<close> is \<open>*tengo.Schema\<close>, \<open>'w\<close> is \<open>workspace.Options\<close>.
  \<^item> \<open>ToLower\<close> is \<open>strings.ToLower\<close>;
  \<^item> \<open>problems\<close> is the registry \<open>problems\<close> of detectors by problem name;
  \<^item> \<open>ExecLogicalSchema\<close> is \<open>workspace.ExecLogicalSchema\<close>: \<open>Inl\<close> its error, \<open>Inr\<close> the
    schema with the per-statement errors;
  \<^item> \<open>ObjectDefinitions\<close> is \<open>schema.ObjectDefinitions()\<close>, a Go map, given as its entries
    in the order \<open>range\<close> visits them;
  \<^item> \<open>ObjectKeyString\<close> is the verb \<open>%s\<close> on a \<open>tengo.ObjectKey\<close>;
  \<^item> \<open>SplitTextBody\<close> is \<open>fsStmt.SplitTextBody()\<close>, called on a possibly nil pointer.
\<close>

record ('s, 'w) Env =
  ToLower :: "string \<Rightarrow> string"
  problems :: "(string \<times> ('s \<Rightarrow> LogicalSchema \<Rightarrow> Options \<Rightarrow> Annotation list)) list"
  ExecLogicalSchema :: "LogicalSchema \<Rightarrow> 'w \<Rightarrow> error + ('s \<times> StatementError list)"
  ObjectDefinitions :: "'s \<Rightarrow> (ObjectKey \<times> string) list"
  ObjectKeyString :: "ObjectKey \<Rightarrow> string"
  SplitTextBody :: "Statement option \<Rightarrow> string \<times> string"

text \<open>
  Modelled from the spec: \<open>problemExists\<close> and \<open>allProblemNames\<close> (problems.go is not
  among the sources). The spec, section 4.2: the set of valid names is exactly the
  registry's key set, the single source of truth consulted for validation.
\<close>

definition problemExists :: "('s, 'w) Env \<Rightarrow> string \<Rightarrow> bool" where
  "problemExists env name = (map_of (problems env) name \<noteq> None)"

definition allProblemNames :: "('s, 'w) Env \<Rightarrow> string list" where
  "allProblemNames env = map fst (problems env)"

text \<open>\<open>strings.Join\<close>.\<close>

fun Join :: "string list \<Rightarrow> string \<Rightarrow> string" where
  "Join [] sep = []"
| "Join [x] sep = x"
| "Join (x # y # ys) sep = x @ sep @ Join (y # ys) sep"

section \<open>OptionsForDir (config.go)\<close>

text \<open>
  One of the two \<open>for _, val := range ...\<close> loops of OptionsForDir, writing \<open>severity\<close>
  for every value. The flag is \<open>False\<close> when the loop left through its \<open>return\<close>, at
  the first value that is no problem name; the map then holds the writes made so far.
\<close>

fun rangeSeverity ::
  "('s, 'w) Env \<Rightarrow> Severity \<Rightarrow> string list \<Rightarrow> (string \<times> Severity) list
     \<Rightarrow> (string \<times> Severity) list \<times> bool" where
  "rangeSeverity env severity [] m = (m, True)"
| "rangeSeverity env severity (val # vals) m =
     (let val' = ToLower env val in
      if \<not> problemExists env val' then (m, False)
      else rangeSeverity env severity vals (AList.update val' severity m))"

text \<open>
  OptionsForDir returns the pair \<open>(opts, err)\<close>; \<open>None\<close> is the nil error. \<open>opts\<close> holds
  a Go map, so the writes made before an error return are in the returned value.
\<close>

definition OptionsForDir :: "('s, 'w) Env \<Rightarrow> Dir \<Rightarrow> Options \<times> error option" where
  "OptionsForDir env dir =
     (let opts = \<lparr> ProblemSeverity = [],
                   AllowedCharSets = GetSlice (Config dir) ''allow-charset'' CHR '','' True,
                   AllowedEngines = GetSlice (Config dir) ''allow-engine'' CHR '','' True \<rparr>;
          allAllowed = Join (allProblemNames env) '', ''
      in case rangeSeverity env SeverityWarning
                (GetSlice (Config dir) ''warnings'' CHR '','' True) (ProblemSeverity opts) of
           (m, False) \<Rightarrow>
             (opts\<lparr> ProblemSeverity := m \<rparr>,
              Some (ConfigError
                (''Option warnings must be a comma-separated list including these values: ''
                 @ allAllowed)))
         | (m, True) \<Rightarrow>
             (case rangeSeverity env SeverityError
                     (GetSlice (Config dir) ''errors'' CHR '','' True) m of
                (m', False) \<Rightarrow>
                  (opts\<lparr> ProblemSeverity := m' \<rparr>,
                   Some (ConfigError
                     (''Option errors must be a comma-separated list including these values: ''
                      @ allAllowed)))
              | (m', True) \<Rightarrow> (opts\<lparr> ProblemSeverity := m' \<rparr>, None)))"

section \<open>LintDir (linter.go)\<close>

text \<open>The inner loop over the literal schema names, setting \<open>foundIgnoredName\<close>.\<close>

definition foundIgnoredName :: "Regexp \<Rightarrow> string list \<Rightarrow> bool" where
  "foundIgnoredName ignoreSchema schemaNames =
     foldl (\<lambda>found schemaName. if MatchString ignoreSchema schemaName then True else found)
       False schemaNames"

text \<open>\<open>ignoreSchema != nil\<close> and the inner loop found a name.\<close>

fun schemaIgnored :: "Regexp option \<Rightarrow> string list \<Rightarrow> bool" where
  "schemaIgnored None schemaNames = False"
| "schemaIgnored (Some ignoreSchema) schemaNames = foundIgnoredName ignoreSchema schemaNames"

text \<open>The loop over \<open>statementErrors\<close>.\<close>

fun lintStatementErrors ::
  "('s, 'w) Env \<Rightarrow> Regexp option \<Rightarrow> Result \<Rightarrow> StatementError list \<Rightarrow> Result" where
  "lintStatementErrors env ignoreTable result [] = result"
| "lintStatementErrors env ignoreTable result (stmtErr # rest) =
     (if ObjectType stmtErr = ObjectTypeTable
         \<and> nonNilAndMatches ignoreTable (ObjectName stmtErr) then
        lintStatementErrors env ignoreTable
          (result\<lparr> DebugLogs := DebugLogs result @
             [''Skipping '' @ ObjectKeyString env (ObjectKey_of stmtErr)
              @ '' because ignore-table='' @ [CHR 0x27] @ fmt_s_Regexp ignoreTable @ [CHR 0x27]] \<rparr>)
          rest
      else
        lintStatementErrors env ignoreTable
          (result\<lparr> Errors := Errors result @
             [\<lparr> Statement = se_Statement stmtErr, LineOffset = 0,
                Summary = ''SQL statement returned an error'',
                Message = Error (Err stmtErr) \<rparr>] \<rparr>)
          rest)"

text \<open>
  The loop over \<open>opts.ProblemSeverity\<close>. \<open>problems[problemName]\<close> of a name that is not in
  the registry is a nil function, and calling it panics.
\<close>

fun lintProblems ::
  "('s, 'w) Env \<Rightarrow> 's \<Rightarrow> LogicalSchema \<Rightarrow> Options \<Rightarrow> Result \<Rightarrow> (string \<times> Severity) list
     \<Rightarrow> panic + Result" where
  "lintProblems env schema logicalSchema opts result [] = Inr result"
| "lintProblems env schema logicalSchema opts result ((problemName, severity) # rest) =
     (case map_of (problems env) problemName of
        None \<Rightarrow> Inl NilFunctionCall
      | Some detector \<Rightarrow>
          (let annotations = detector schema logicalSchema opts in
           if severity = SeverityWarning then
             lintProblems env schema logicalSchema opts
               (result\<lparr> Warnings := Warnings result @ annotations \<rparr>) rest
           else
             lintProblems env schema logicalSchema opts
               (result\<lparr> Errors := Errors result @ annotations \<rparr>) rest))"

text \<open>The loop over \<open>schema.ObjectDefinitions()\<close> that emits the reformat notices.\<close>

fun lintFormat ::
  "('s, 'w) Env \<Rightarrow> Regexp option \<Rightarrow> LogicalSchema \<Rightarrow> Result \<Rightarrow> (ObjectKey \<times> string) list
     \<Rightarrow> Result" where
  "lintFormat env ignoreTable logicalSchema result [] = result"
| "lintFormat env ignoreTable logicalSchema result ((key, instCreateText) # rest) =
     (if Type key = ObjectTypeTable \<and> nonNilAndMatches ignoreTable (Name key) then
        lintFormat env ignoreTable logicalSchema
          (result\<lparr> DebugLogs := DebugLogs result @
             [''Skipping '' @ ObjectKeyString env key
              @ '' because ignore-table='' @ [CHR 0x27] @ fmt_s_Regexp ignoreTable @ [CHR 0x27]] \<rparr>)
          rest
      else
        (let fsStmt = Creates logicalSchema key;
             (fsBody, fsSuffix) = SplitTextBody env fsStmt
         in if instCreateText \<noteq> fsBody then
              lintFormat env ignoreTable logicalSchema
                (result\<lparr> FormatNotices := FormatNotices result @
                   [\<lparr> Statement = fsStmt, LineOffset = 0,
                      Summary = ''SQL statement should be reformatted'',
                      Message = instCreateText @ fsSuffix \<rparr>] \<rparr>)
                rest
            else lintFormat env ignoreTable logicalSchema result rest))"

text \<open>
  The loop over \<open>dir.LogicalSchemas\<close>. The first branch is the \<open>return result\<close> of the
  ignore-schema check, the second the \<open>continue\<close> after a failed materialization.
\<close>

fun lintLogicalSchemas ::
  "('s, 'w) Env \<Rightarrow> Dir \<Rightarrow> 'w \<Rightarrow> Regexp option \<Rightarrow> Regexp option \<Rightarrow> Options \<Rightarrow> Result
     \<Rightarrow> LogicalSchema list \<Rightarrow> panic + Result" where
  "lintLogicalSchemas env dir wsOpts ignoreTable ignoreSchema opts result [] = Inr result"
| "lintLogicalSchemas env dir wsOpts ignoreTable ignoreSchema opts result (logicalSchema # rest) =
     (if schemaIgnored ignoreSchema (GetSlice (Config dir) ''schema'' CHR '','' True) then
        Inr (result\<lparr> DebugLogs := DebugLogs result @
               [''Skipping schema in '' @ RelPath dir @ '' because ignore-schema=''
                @ [CHR 0x27] @ fmt_s_Regexp ignoreSchema @ [CHR 0x27]] \<rparr>)
      else
        (case ExecLogicalSchema env logicalSchema wsOpts of
           Inl err \<Rightarrow>
             lintLogicalSchemas env dir wsOpts ignoreTable ignoreSchema opts
               (result\<lparr> Exceptions := Exceptions result @
                  [OtherError (''Skipping schema in '' @ RelPath dir @ '' due to error: ''
                               @ Error err)] \<rparr>)
               rest
         | Inr (schema, statementErrors) \<Rightarrow>
             (case lintProblems env schema logicalSchema opts
                     (lintStatementErrors env ignoreTable result statementErrors)
                     (ProblemSeverity opts) of
                Inl p \<Rightarrow> Inl p
              | Inr result' \<Rightarrow>
                  lintLogicalSchemas env dir wsOpts ignoreTable ignoreSchema opts
                    (lintFormat env ignoreTable logicalSchema result'
                       (ObjectDefinitions env schema))
                    rest)))"

definition LintDir :: "('s, 'w) Env \<Rightarrow> Dir \<Rightarrow> 'w \<Rightarrow> panic + Result" where
  "LintDir env dir wsOpts =
     (let result = emptyResult in
      case GetRegexp (Config dir) ''ignore-table'' of
        Inl err \<Rightarrow> Inr (BadConfigResult err)
      | Inr ignoreTable \<Rightarrow>
          (case GetRegexp (Config dir) ''ignore-schema'' of
             Inl err \<Rightarrow> Inr (BadConfigResult err)
           | Inr ignoreSchema \<Rightarrow>
               (case OptionsForDir env dir of
                  (opts, Some err) \<Rightarrow> Inr (BadConfigResult err)
                | (opts, None) \<Rightarrow>
                    lintLogicalSchemas env dir wsOpts ignoreTable ignoreSchema opts result
                      (LogicalSchemas dir))))"

section \<open>Example directories\<close>

text \<open>
  Concrete collaborators on which the theorems below are run: an ASCII \<open>ToLower\<close>, a
  registry with the three problem names of the package's tests, a schema that is its own
  list of object definitions, and a \<open>SplitTextBody\<close> that cuts at the first semicolon.
\<close>

definition asciiToLower :: "string \<Rightarrow> string" where
  "asciiToLower s =
     map (\<lambda>c. case map_of (zip ''ABCDEFGHIJKLMNOPQRSTUVWXYZ'' ''abcdefghijklmnopqrstuvwxyz'') c of
                None \<Rightarrow> c | Some l \<Rightarrow> l) s"

definition noFindings ::
  "(ObjectKey \<times> string) list \<Rightarrow> LogicalSchema \<Rightarrow> Options \<Rightarrow> Annotation list" where
  "noFindings schema logicalSchema opts = []"

definition exampleEnv ::
  "(LogicalSchema \<Rightarrow> unit \<Rightarrow> error + ((ObjectKey \<times> string) list \<times> StatementError list))
     \<Rightarrow> ((ObjectKey \<times> string) list, unit) Env" where
  "exampleEnv exec =
     \<lparr> ToLower = asciiToLower,
       problems = [(''no-pk'', noFindings), (''bad-charset'', noFindings),
                   (''bad-engine'', noFindings)],
       ExecLogicalSchema = exec,
       ObjectDefinitions = (\<lambda>schema. schema),
       ObjectKeyString = Name,
       SplitTextBody = (\<lambda>fsStmt. case fsStmt of
                          None \<Rightarrow> ([], [])
                        | Some stmt \<Rightarrow> (takeWhile (\<lambda>c. c \<noteq> CHR '';'') (Text stmt),
                                        dropWhile (\<lambda>c. c \<noteq> CHR '';'') (Text stmt))) \<rparr>"

definition exampleConfig ::
  "string list \<Rightarrow> string list \<Rightarrow> error + Regexp option \<Rightarrow> error + Regexp option \<Rightarrow> Config" where
  "exampleConfig warnings errors ignoreTable ignoreSchema =
     \<lparr> GetSlice = (\<lambda>name delimiter unwrapFully.
                     if name = ''warnings'' then warnings
                     else if name = ''errors'' then errors
                     else if name = ''allow-charset'' then [''utf8mb4'', ''utf8'']
                     else if name = ''allow-engine'' then [''myisam'']
                     else if name = ''schema'' then [''product'', ''analytics'']
                     else []),
       GetRegexp = (\<lambda>name. if name = ''ignore-table'' then ignoreTable
                            else if name = ''ignore-schema'' then ignoreSchema
                            else Inr None) \<rparr>"

definition execFails ::
  "LogicalSchema \<Rightarrow> unit \<Rightarrow> error + ((ObjectKey \<times> string) list \<times> StatementError list)" where
  "execFails logicalSchema wsOpts = Inl (OtherError ''connection refused'')"

text \<open>
  A logical schema with two tables on disk, one that cannot be materialized, and a
  workspace that returns the canonical definitions of three tables: \<open>users\<close>, written
  differently on disk, \<open>posts\<close>, written the same, and \<open>_tmp\<close>.
\<close>

definition tableKey :: "string \<Rightarrow> ObjectKey" where
  "tableKey name = \<lparr> Type = ObjectTypeTable, Name = name \<rparr>"

definition productSchema :: LogicalSchema where
  "productSchema =
     \<lparr> Creates = (\<lambda>key.
         if key = tableKey ''users'' then
           Some \<lparr> File = ''users.sql'', LineNo = 1, CharNo = 1,
                  Text = ''CREATE TABLE users (id int);'' \<rparr>
         else if key = tableKey ''posts'' then
           Some \<lparr> File = ''posts.sql'', LineNo = 1, CharNo = 1,
                  Text = ''CREATE TABLE posts (id int(11));'' \<rparr>
         else None) \<rparr>"

definition brokenSchema :: LogicalSchema where
  "brokenSchema = \<lparr> Creates = (\<lambda>key. None) \<rparr>"

definition execExample ::
  "LogicalSchema \<Rightarrow> unit \<Rightarrow> error + ((ObjectKey \<times> string) list \<times> StatementError list)" where
  "execExample logicalSchema wsOpts =
     (if Creates logicalSchema (tableKey ''users'') = None then
        Inl (OtherError ''connection refused'')
      else
        Inr ([(tableKey ''users'', ''CREATE TABLE users (id int(11))''),
              (tableKey ''posts'', ''CREATE TABLE posts (id int(11))''),
              (tableKey ''_tmp'', ''CREATE TABLE _tmp (x int(11))'')], []))"

definition underscoreTables :: Regexp where
  "underscoreTables = Regexp ''^_'' (\<lambda>s. take 1 s = ''_'')"

definition analyticsSchema :: Regexp where
  "analyticsSchema = Regexp ''^analytics$'' (\<lambda>s. s = ''analytics'')"

section \<open>Properties\<close>

lemma digits_single: "n < 10 \<Longrightarrow> digits n = [digitChar n]"
  by (simp add: digits.simps)

text \<open>
  Claim C6. \<open>r.Merge(other)\<close> leaves in each of the five fields of \<open>r\<close> the entries \<open>r\<close>
  had, in their order, followed by the entries of \<open>other\<close>, in their order; nothing is
  dropped and nothing is duplicated, so each length is the sum of the two lengths.
\<close>

theorem Merge_appends_all_fields:
  "Errors (Merge r other) = Errors r @ Errors other
   \<and> Warnings (Merge r other) = Warnings r @ Warnings other
   \<and> FormatNotices (Merge r other) = FormatNotices r @ FormatNotices other
   \<and> DebugLogs (Merge r other) = DebugLogs r @ DebugLogs other
   \<and> Exceptions (Merge r other) = Exceptions r @ Exceptions other
   \<and> length (Errors (Merge r other)) = length (Errors r) + length (Errors other)
   \<and> length (Warnings (Merge r other)) = length (Warnings r) + length (Warnings other)
   \<and> length (FormatNotices (Merge r other))
       = length (FormatNotices r) + length (FormatNotices other)
   \<and> length (DebugLogs (Merge r other)) = length (DebugLogs r) + length (DebugLogs other)
   \<and> length (Exceptions (Merge r other)) = length (Exceptions r) + length (Exceptions other)"
  by (simp add: Merge_def)

text \<open>
  Claim C10. \<open>BadConfigResult(err)\<close> is a Result whose Exceptions hold exactly one entry,
  a ConfigError carrying the text \<open>err.Error()\<close>, and whose other four fields are empty.
  A ConfigError is kept as it is.
\<close>

theorem BadConfigResult_single_ConfigError:
  "BadConfigResult err =
     \<lparr> Errors = [], Warnings = [], FormatNotices = [], DebugLogs = [],
       Exceptions = [ConfigError (Error err)] \<rparr>
   \<and> BadConfigResult (ConfigError ce) =
     \<lparr> Errors = [], Warnings = [], FormatNotices = [], DebugLogs = [],
       Exceptions = [ConfigError ce] \<rparr>"
  by (cases err) (simp_all add: BadConfigResult_def emptyResult_def)

text \<open>
  Claim C5, as the code has it. For every Annotation whose Statement pointer is not nil,
  \<open>MessageWithLocation\<close> renders exactly
  one of three forms, tried in this order: without a file or a line number, the message
  followed by the full SQL text; with a zero line offset and a column greater than 1,
  file, line and column before the message; in every other case file and line plus offset
  before the message, so a non-zero offset always drops the column.
\<close>

theorem MessageWithLocation_three_forms:
  assumes "Statement a = Some stmt"
  shows "(File stmt = '''' \<or> LineNo stmt = 0 \<longrightarrow>
            MessageWithLocation a = Inr (Message a @ '' [Full SQL: '' @ Text stmt @ '']''))
       \<and> (File stmt \<noteq> '''' \<and> LineNo stmt \<noteq> 0 \<and> LineOffset a = 0 \<and> 1 < sint (CharNo stmt) \<longrightarrow>
            MessageWithLocation a =
              Inr (File stmt @ '':'' @ fmt_d (LineNo stmt) @ '':'' @ fmt_d (CharNo stmt)
                   @ '': '' @ Message a))
       \<and> (File stmt \<noteq> '''' \<and> LineNo stmt \<noteq> 0 \<and> (LineOffset a \<noteq> 0 \<or> sint (CharNo stmt) \<le> 1) \<longrightarrow>
            MessageWithLocation a =
              Inr (File stmt @ '':'' @ fmt_d (LineNo stmt + LineOffset a) @ '': '' @ Message a))"
  using assms by (auto simp: MessageWithLocation_def word_sless_alt)

theorem MessageWithLocation_three_forms_witness:
  "MessageWithLocation
     \<lparr>Statement = Some \<lparr>File = '''', LineNo = 5, CharNo = 3, Text = ''CREATE TABLE t''\<rparr>,
      LineOffset = 0, Summary = ''s'', Message = ''bad''\<rparr>
     = Inr ''bad [Full SQL: CREATE TABLE t]''
   \<and> MessageWithLocation
     \<lparr>Statement = Some \<lparr>File = ''a.sql'', LineNo = 5, CharNo = 3, Text = ''CREATE TABLE t''\<rparr>,
      LineOffset = 0, Summary = ''s'', Message = ''bad''\<rparr>
     = Inr ''a.sql:5:3: bad''
   \<and> MessageWithLocation
     \<lparr>Statement = Some \<lparr>File = ''a.sql'', LineNo = 5, CharNo = 3, Text = ''CREATE TABLE t''\<rparr>,
      LineOffset = 2, Summary = ''s'', Message = ''bad''\<rparr>
     = Inr ''a.sql:7: bad''"
  using MessageWithLocation_three_forms
          [of "\<lparr>Statement = Some \<lparr>File = '''', LineNo = 5, CharNo = 3, Text = ''CREATE TABLE t''\<rparr>,
                LineOffset = 0, Summary = ''s'', Message = ''bad''\<rparr>"
              "\<lparr>File = '''', LineNo = 5, CharNo = 3, Text = ''CREATE TABLE t''\<rparr>"]
        MessageWithLocation_three_forms
          [of "\<lparr>Statement = Some \<lparr>File = ''a.sql'', LineNo = 5, CharNo = 3, Text = ''CREATE TABLE t''\<rparr>,
                LineOffset = 0, Summary = ''s'', Message = ''bad''\<rparr>"
              "\<lparr>File = ''a.sql'', LineNo = 5, CharNo = 3, Text = ''CREATE TABLE t''\<rparr>"]
        MessageWithLocation_three_forms
          [of "\<lparr>Statement = Some \<lparr>File = ''a.sql'', LineNo = 5, CharNo = 3, Text = ''CREATE TABLE t''\<rparr>,
                LineOffset = 2, Summary = ''s'', Message = ''bad''\<rparr>"
              "\<lparr>File = ''a.sql'', LineNo = 5, CharNo = 3, Text = ''CREATE TABLE t''\<rparr>"]
  by (simp add: fmt_d_def digits_single digitChar_def)

text \<open>
  Claim C5, as the spec states it for every Annotation, fails. An Annotation whose
  Statement pointer is nil renders none of the three forms: reading \<open>a.Statement.File\<close>
  panics. LintDir builds such an Annotation when the schema holds an object that has no
  entry in \<open>logicalSchema.Creates\<close>: the reformat notice then carries the nil statement.
\<close>

theorem MessageWithLocation_three_forms_counterexample:
  "MessageWithLocation
     \<lparr> Statement = None, LineOffset = 0, Summary = ''SQL statement should be reformatted'',
       Message = ''CREATE TABLE orders (id int(11))'' \<rparr>
     = Inl NilPointerDereference
   \<and> FormatNotices
       (lintFormat (exampleEnv execExample) None brokenSchema emptyResult
          [(tableKey ''orders'', ''CREATE TABLE orders (id int(11))'')])
     = [\<lparr> Statement = None, LineOffset = 0,
          Summary = ''SQL statement should be reformatted'',
          Message = ''CREATE TABLE orders (id int(11))'' \<rparr>]"
  by (simp add: MessageWithLocation_def exampleEnv_def brokenSchema_def emptyResult_def
        Let_def)

subsection \<open>OptionsForDir\<close>

lemma rangeSeverity_flag:
  "snd (rangeSeverity env severity vals m) = (\<forall>v\<in>set vals. problemExists env (ToLower env v))"
  by (induction vals arbitrary: m) (auto simp: Let_def)

lemma rangeSeverity_all_valid:
  "\<forall>v\<in>set vals. problemExists env (ToLower env v) \<Longrightarrow>
   rangeSeverity env severity vals m =
     (foldl (\<lambda>m v. AList.update (ToLower env v) severity m) m vals, True)"
  by (induction vals arbitrary: m) (auto simp: Let_def)

lemma rangeSeverity_stops:
  "snd (rangeSeverity env severity vals m) = False \<Longrightarrow>
   \<exists>pre bad post. vals = pre @ bad # post
      \<and> (\<forall>v\<in>set pre. problemExists env (ToLower env v))
      \<and> \<not> problemExists env (ToLower env bad)
      \<and> fst (rangeSeverity env severity vals m) =
          foldl (\<lambda>m v. AList.update (ToLower env v) severity m) m pre"
proof (induction vals arbitrary: m)
  case Nil
  then show ?case by simp
next
  case (Cons val vals)
  show ?case
  proof (cases "problemExists env (ToLower env val)")
    case False
    then have "fst (rangeSeverity env severity (val # vals) m) = m"
      by (simp add: Let_def)
    with False show ?thesis
      by (intro exI [of _ "[]"] exI [of _ val] exI [of _ vals]) simp
  next
    case True
    let ?m' = "AList.update (ToLower env val) severity m"
    from True Cons.prems have "snd (rangeSeverity env severity vals ?m') = False"
      by (simp add: Let_def)
    from Cons.IH [OF this] obtain pre bad post where
      *: "vals = pre @ bad # post" "\<forall>v\<in>set pre. problemExists env (ToLower env v)"
         "\<not> problemExists env (ToLower env bad)"
         "fst (rangeSeverity env severity vals ?m') =
            foldl (\<lambda>m v. AList.update (ToLower env v) severity m) ?m' pre"
      by blast
    with True show ?thesis
      by (intro exI [of _ "val # pre"] exI [of _ bad] exI [of _ post]) (simp add: Let_def)
  qed
qed

lemma map_of_foldl_update:
  "map_of (foldl (\<lambda>m v. AList.update (f v) severity m) m vals) k =
     (if k \<in> f ` set vals then Some severity else map_of m k)"
  by (induction vals arbitrary: m) (auto simp: update_conv')

lemma Join_contains:
  "name \<in> set names \<Longrightarrow> \<exists>pre post. Join names sep = pre @ name @ post"
proof (induction names sep rule: Join.induct)
  case (1 sep)
  then show ?case by simp
next
  case (2 x sep)
  then have "Join [x] sep = [] @ name @ []" by simp
  then show ?case by blast
next
  case (3 x y ys sep)
  show ?case
  proof (cases "name = x")
    case True
    then have "Join (x # y # ys) sep = [] @ name @ (sep @ Join (y # ys) sep)" by simp
    then show ?thesis by blast
  next
    case False
    with 3 obtain pre post where "Join (y # ys) sep = pre @ name @ post" by auto
    then have "Join (x # y # ys) sep = (x @ sep @ pre) @ name @ post" by simp
    then show ?thesis by blast
  qed
qed

lemma problemExists_in_names:
  "problemExists env name \<Longrightarrow> name \<in> set (allProblemNames env)"
  by (auto simp: problemExists_def allProblemNames_def dest: map_of_SomeD intro: rev_image_eqI)

lemma OptionsForDir_bad_warning:
  assumes "\<exists>v\<in>set (GetSlice (Config dir) ''warnings'' CHR '','' True).
             \<not> problemExists env (ToLower env v)"
  shows "snd (OptionsForDir env dir) =
           Some (ConfigError
             (''Option warnings must be a comma-separated list including these values: ''
              @ Join (allProblemNames env) '', ''))"
proof -
  from assms have "snd (rangeSeverity env SeverityWarning
      (GetSlice (Config dir) ''warnings'' CHR '','' True) []) = False"
    by (simp add: rangeSeverity_flag)
  then obtain m where "rangeSeverity env SeverityWarning
      (GetSlice (Config dir) ''warnings'' CHR '','' True) [] = (m, False)"
    by (cases "rangeSeverity env SeverityWarning
      (GetSlice (Config dir) ''warnings'' CHR '','' True) []") auto
  then show ?thesis
    by (simp add: OptionsForDir_def Let_def)
qed

lemma OptionsForDir_bad_error:
  assumes "\<forall>v\<in>set (GetSlice (Config dir) ''warnings'' CHR '','' True).
             problemExists env (ToLower env v)"
      and "\<exists>v\<in>set (GetSlice (Config dir) ''errors'' CHR '','' True).
             \<not> problemExists env (ToLower env v)"
  shows "snd (OptionsForDir env dir) =
           Some (ConfigError
             (''Option errors must be a comma-separated list including these values: ''
              @ Join (allProblemNames env) '', ''))"
proof -
  from assms(1) obtain m where
    w: "rangeSeverity env SeverityWarning
          (GetSlice (Config dir) ''warnings'' CHR '','' True) [] = (m, True)"
    by (simp add: rangeSeverity_all_valid)
  from assms(2) have "snd (rangeSeverity env SeverityError
      (GetSlice (Config dir) ''errors'' CHR '','' True) m) = False"
    by (simp add: rangeSeverity_flag)
  then obtain m' where "rangeSeverity env SeverityError
      (GetSlice (Config dir) ''errors'' CHR '','' True) m = (m', False)"
    by (cases "rangeSeverity env SeverityError
      (GetSlice (Config dir) ''errors'' CHR '','' True) m") auto
  with w show ?thesis
    by (simp add: OptionsForDir_def Let_def)
qed

lemma OptionsForDir_success:
  assumes "snd (OptionsForDir env dir) = None"
  shows "(\<forall>v\<in>set (GetSlice (Config dir) ''warnings'' CHR '','' True).
             problemExists env (ToLower env v))
       \<and> (\<forall>v\<in>set (GetSlice (Config dir) ''errors'' CHR '','' True).
             problemExists env (ToLower env v))
       \<and> ProblemSeverity (fst (OptionsForDir env dir)) =
           foldl (\<lambda>m v. AList.update (ToLower env v) SeverityError m)
             (foldl (\<lambda>m v. AList.update (ToLower env v) SeverityWarning m) []
                (GetSlice (Config dir) ''warnings'' CHR '','' True))
             (GetSlice (Config dir) ''errors'' CHR '','' True)"
proof -
  have w: "\<forall>v\<in>set (GetSlice (Config dir) ''warnings'' CHR '','' True).
             problemExists env (ToLower env v)"
    using assms OptionsForDir_bad_warning [of dir env] by fastforce
  have e: "\<forall>v\<in>set (GetSlice (Config dir) ''errors'' CHR '','' True).
             problemExists env (ToLower env v)"
    using assms w OptionsForDir_bad_error [of dir env] by fastforce
  from w e show ?thesis
    by (simp add: OptionsForDir_def Let_def rangeSeverity_all_valid)
qed

lemma keys_foldl_update:
  "fst ` set (foldl (\<lambda>m t. AList.update (f t) (g t) m) m ts) = fst ` set m \<union> f ` set ts"
  by (induction ts arbitrary: m) (auto simp: dom_update)

lemma OptionsForDir_allow_lists:
  "AllowedCharSets (fst (OptionsForDir env dir)) =
     GetSlice (Config dir) ''allow-charset'' CHR '','' True
   \<and> AllowedEngines (fst (OptionsForDir env dir)) =
     GetSlice (Config dir) ''allow-engine'' CHR '','' True"
  by (simp add: OptionsForDir_def Let_def split: prod.splits bool.splits)

lemma OptionsForDir_map_cases:
  "ProblemSeverity (fst (OptionsForDir env dir)) =
     (case rangeSeverity env SeverityWarning
             (GetSlice (Config dir) ''warnings'' CHR '','' True) [] of
        (m, False) \<Rightarrow> m
      | (m, True) \<Rightarrow>
          fst (rangeSeverity env SeverityError
                 (GetSlice (Config dir) ''errors'' CHR '','' True) m))"
  by (simp add: OptionsForDir_def Let_def split: prod.splits bool.splits)

lemma OptionsForDir_partial_map:
  assumes "snd (OptionsForDir env dir) = Some err"
  shows "\<exists>pre bad post.
           map (\<lambda>v. (v, SeverityWarning)) (GetSlice (Config dir) ''warnings'' CHR '','' True)
             @ map (\<lambda>v. (v, SeverityError)) (GetSlice (Config dir) ''errors'' CHR '','' True)
             = pre @ bad # post
         \<and> (\<forall>t\<in>set pre. problemExists env (ToLower env (fst t)))
         \<and> \<not> problemExists env (ToLower env (fst bad))
         \<and> ProblemSeverity (fst (OptionsForDir env dir)) =
             foldl (\<lambda>m t. AList.update (ToLower env (fst t)) (snd t) m) [] pre"
proof -
  let ?ws = "GetSlice (Config dir) ''warnings'' CHR '','' True"
  let ?es = "GetSlice (Config dir) ''errors'' CHR '','' True"
  let ?W = "\<lambda>v::string. (v, SeverityWarning)"
  let ?E = "\<lambda>v::string. (v, SeverityError)"
  let ?upd = "\<lambda>m (t::string \<times> Severity). AList.update (ToLower env (fst t)) (snd t) m"
  show ?thesis
  proof (cases "snd (rangeSeverity env SeverityWarning ?ws [])")
    case False
    then obtain m where m: "rangeSeverity env SeverityWarning ?ws [] = (m, False)"
      by (cases "rangeSeverity env SeverityWarning ?ws []") auto
    from False rangeSeverity_stops [of env SeverityWarning ?ws "[]"]
    obtain pre bad post where
      *: "?ws = pre @ bad # post" "\<forall>v\<in>set pre. problemExists env (ToLower env v)"
         "\<not> problemExists env (ToLower env bad)"
         "fst (rangeSeverity env SeverityWarning ?ws []) =
            foldl (\<lambda>m v. AList.update (ToLower env v) SeverityWarning m) [] pre"
      by auto
    have split: "map ?W ?ws @ map ?E ?es = map ?W pre @ ?W bad # (map ?W post @ map ?E ?es)"
      by (simp add: *(1))
    have fold: "ProblemSeverity (fst (OptionsForDir env dir)) = foldl ?upd [] (map ?W pre)"
      using m *(4) by (simp add: OptionsForDir_map_cases foldl_map)
    from split fold *(2,3) show ?thesis
      by (intro exI [of _ "map ?W pre"] exI [of _ "?W bad"]
            exI [of _ "map ?W post @ map ?E ?es"]) simp
  next
    case True
    then have wvalid: "\<forall>v\<in>set ?ws. problemExists env (ToLower env v)"
      by (simp add: rangeSeverity_flag)
    let ?m = "foldl (\<lambda>m v. AList.update (ToLower env v) SeverityWarning m) [] ?ws"
    have w: "rangeSeverity env SeverityWarning ?ws [] = (?m, True)"
      using wvalid by (simp add: rangeSeverity_all_valid)
    have "\<not> snd (rangeSeverity env SeverityError ?es ?m)"
    proof
      assume "snd (rangeSeverity env SeverityError ?es ?m)"
      then obtain m' where "rangeSeverity env SeverityError ?es ?m = (m', True)"
        by (cases "rangeSeverity env SeverityError ?es ?m") auto
      with w have "snd (OptionsForDir env dir) = None"
        by (simp add: OptionsForDir_def Let_def)
      with assms show False by simp
    qed
    with rangeSeverity_stops [of env SeverityError ?es ?m]
    obtain pre bad post where
      *: "?es = pre @ bad # post" "\<forall>v\<in>set pre. problemExists env (ToLower env v)"
         "\<not> problemExists env (ToLower env bad)"
         "fst (rangeSeverity env SeverityError ?es ?m) =
            foldl (\<lambda>m v. AList.update (ToLower env v) SeverityError m) ?m pre"
      by auto
    have split: "map ?W ?ws @ map ?E ?es = (map ?W ?ws @ map ?E pre) @ ?E bad # map ?E post"
      by (simp add: *(1))
    have fold: "ProblemSeverity (fst (OptionsForDir env dir)) =
                  foldl ?upd [] (map ?W ?ws @ map ?E pre)"
      using w *(4) by (simp add: OptionsForDir_map_cases foldl_map)
    from split fold *(2,3) wvalid show ?thesis
      by (intro exI [of _ "map ?W ?ws @ map ?E pre"] exI [of _ "?E bad"]
            exI [of _ "map ?E post"]) auto
  qed
qed

text \<open>
  Claim C3. When the warnings list holds a token that, lower-cased, is no known problem
  name, OptionsForDir returns a ConfigError whose message begins with \<open>Option warnings\<close>;
  when every token of the warnings list is known and the errors list holds such a token,
  the message begins with \<open>Option errors\<close> (the warnings list is read first, so a bad
  token there is the one reported). In both cases the message ends with the known problem
  names joined by commas, and every known name occurs in that enumeration.
\<close>

theorem OptionsForDir_unknown_problem_name:
  "((\<exists>v\<in>set (GetSlice (Config dir) ''warnings'' CHR '','' True).
        \<not> problemExists env (ToLower env v)) \<longrightarrow>
      snd (OptionsForDir env dir) =
        Some (ConfigError
          (''Option warnings '' @ ''must be a comma-separated list including these values: ''
           @ Join (allProblemNames env) '', '')))
   \<and> ((\<forall>v\<in>set (GetSlice (Config dir) ''warnings'' CHR '','' True).
          problemExists env (ToLower env v))
       \<and> (\<exists>v\<in>set (GetSlice (Config dir) ''errors'' CHR '','' True).
            \<not> problemExists env (ToLower env v)) \<longrightarrow>
      snd (OptionsForDir env dir) =
        Some (ConfigError
          (''Option errors '' @ ''must be a comma-separated list including these values: ''
           @ Join (allProblemNames env) '', '')))
   \<and> (\<forall>name. problemExists env name \<longrightarrow>
         (\<exists>pre post. Join (allProblemNames env) '', '' = pre @ name @ post))"
proof (intro conjI impI allI)
  assume "\<exists>v\<in>set (GetSlice (Config dir) ''warnings'' CHR '','' True).
            \<not> problemExists env (ToLower env v)"
  then show "snd (OptionsForDir env dir) =
        Some (ConfigError
          (''Option warnings '' @ ''must be a comma-separated list including these values: ''
           @ Join (allProblemNames env) '', ''))"
    using OptionsForDir_bad_warning [of dir env] by simp
next
  assume "(\<forall>v\<in>set (GetSlice (Config dir) ''warnings'' CHR '','' True).
          problemExists env (ToLower env v))
       \<and> (\<exists>v\<in>set (GetSlice (Config dir) ''errors'' CHR '','' True).
            \<not> problemExists env (ToLower env v))"
  then show "snd (OptionsForDir env dir) =
        Some (ConfigError
          (''Option errors '' @ ''must be a comma-separated list including these values: ''
           @ Join (allProblemNames env) '', ''))"
    using OptionsForDir_bad_error [of dir env] by simp
next
  fix name
  assume "problemExists env name"
  then show "\<exists>pre post. Join (allProblemNames env) '', '' = pre @ name @ post"
    by (intro Join_contains problemExists_in_names)
qed

theorem OptionsForDir_unknown_problem_name_witness:
  "snd (OptionsForDir (exampleEnv execFails)
          \<lparr> Config = exampleConfig [''no-pk'', ''bad-charset'', ''bogus''] [''bad-engine'']
                       (Inr None) (Inr None),
            RelPath = ''badcfgwarnings'', LogicalSchemas = [] \<rparr>)
     = Some (ConfigError (''Option warnings must be a comma-separated list including these values: ''
                          @ ''no-pk, bad-charset, bad-engine''))
   \<and> snd (OptionsForDir (exampleEnv execFails)
          \<lparr> Config = exampleConfig [''no-pk'', ''bad-charset''] [''bad-engine'', ''Bogus'']
                       (Inr None) (Inr None),
            RelPath = ''badcfgerrors'', LogicalSchemas = [] \<rparr>)
     = Some (ConfigError (''Option errors must be a comma-separated list including these values: ''
                          @ ''no-pk, bad-charset, bad-engine''))
   \<and> (\<exists>pre post. Join (allProblemNames (exampleEnv execFails)) '', ''
                      = pre @ ''bad-charset'' @ post)"
proof -
  let ?env = "exampleEnv execFails"
  let ?badWarnings =
    "\<lparr> Config = exampleConfig [''no-pk'', ''bad-charset'', ''bogus''] [''bad-engine'']
                (Inr None) (Inr None),
       RelPath = ''badcfgwarnings'', LogicalSchemas = [] \<rparr>"
  let ?badErrors =
    "\<lparr> Config = exampleConfig [''no-pk'', ''bad-charset''] [''bad-engine'', ''Bogus'']
                (Inr None) (Inr None),
       RelPath = ''badcfgerrors'', LogicalSchemas = [] \<rparr>"
  have w: "snd (OptionsForDir ?env ?badWarnings)
     = Some (ConfigError (''Option warnings must be a comma-separated list including these values: ''
                          @ ''no-pk, bad-charset, bad-engine''))"
    using OptionsForDir_unknown_problem_name [of ?badWarnings ?env]
    by (simp add: exampleEnv_def exampleConfig_def asciiToLower_def problemExists_def
          allProblemNames_def)
  have e: "snd (OptionsForDir ?env ?badErrors)
     = Some (ConfigError (''Option errors must be a comma-separated list including these values: ''
                          @ ''no-pk, bad-charset, bad-engine''))"
    using OptionsForDir_unknown_problem_name [of ?badErrors ?env]
    by (simp add: exampleEnv_def exampleConfig_def asciiToLower_def problemExists_def
          allProblemNames_def)
  have "problemExists ?env ''bad-charset''"
    by (simp add: problemExists_def exampleEnv_def)
  with OptionsForDir_unknown_problem_name [of ?badWarnings ?env]
  have n: "\<exists>pre post. Join (allProblemNames ?env) '', '' = pre @ ''bad-charset'' @ post"
    by blast
  from w e n show ?thesis by blast
qed

text \<open>
  Claim C4, as the code has it. For every configuration on which OptionsForDir succeeds
  (returns a nil error), a problem name that occurs, lower-cased, in both the warnings list
  and the errors list has severity error in the returned severity map: the errors list is
  written after the warnings list.
\<close>

theorem OptionsForDir_errors_list_wins:
  assumes "snd (OptionsForDir env dir) = None"
      and "name \<in> ToLower env ` set (GetSlice (Config dir) ''warnings'' CHR '','' True)"
      and "name \<in> ToLower env ` set (GetSlice (Config dir) ''errors'' CHR '','' True)"
  shows "map_of (ProblemSeverity (fst (OptionsForDir env dir))) name = Some SeverityError"
  using OptionsForDir_success [OF assms(1)] assms(3)
  by (simp add: map_of_foldl_update)

theorem OptionsForDir_errors_list_wins_witness:
  "map_of (ProblemSeverity (fst (OptionsForDir (exampleEnv execFails)
          \<lparr> Config = exampleConfig [''no-pk'', ''bad-charset'', ''bad-engine''] [''No-PK'']
                       (Inr None) (Inr None),
            RelPath = ''valid'', LogicalSchemas = [] \<rparr>))) ''no-pk'' = Some SeverityError"
proof -
  let ?dir = "\<lparr> Config = exampleConfig [''no-pk'', ''bad-charset'', ''bad-engine''] [''No-PK'']
                       (Inr None) (Inr None),
            RelPath = ''valid'', LogicalSchemas = [] \<rparr>"
  have 1: "snd (OptionsForDir (exampleEnv execFails) ?dir) = None"
    by (simp add: OptionsForDir_def exampleEnv_def exampleConfig_def asciiToLower_def
          problemExists_def Let_def)
  have 2: "''no-pk'' \<in> ToLower (exampleEnv execFails) `
             set (GetSlice (Config ?dir) ''warnings'' CHR '','' True)"
    by (simp add: exampleEnv_def exampleConfig_def asciiToLower_def)
  have 3: "''no-pk'' \<in> ToLower (exampleEnv execFails) `
             set (GetSlice (Config ?dir) ''errors'' CHR '','' True)"
    by (simp add: exampleEnv_def exampleConfig_def asciiToLower_def)
  show ?thesis
    by (rule OptionsForDir_errors_list_wins [OF 1 2 3])
qed

text \<open>
  Claim C4, as the spec states it for every configuration, fails. With warnings
  \<open>no-pk\<close> and errors \<open>bogus,no-pk\<close> the name \<open>no-pk\<close> is in both lists, but
  OptionsForDir returns at \<open>bogus\<close>, before the errors list writes \<open>no-pk\<close>: the map
  returned with the error still gives \<open>no-pk\<close> severity warning.
\<close>

theorem OptionsForDir_errors_list_wins_counterexample:
  "''no-pk'' \<in> ToLower (exampleEnv execFails) `
      set (GetSlice (exampleConfig [''no-pk''] [''bogus'', ''no-pk''] (Inr None) (Inr None))
             ''warnings'' CHR '','' True)
   \<and> ''no-pk'' \<in> ToLower (exampleEnv execFails) `
      set (GetSlice (exampleConfig [''no-pk''] [''bogus'', ''no-pk''] (Inr None) (Inr None))
             ''errors'' CHR '','' True)
   \<and> OptionsForDir (exampleEnv execFails)
         \<lparr> Config = exampleConfig [''no-pk''] [''bogus'', ''no-pk''] (Inr None) (Inr None),
           RelPath = ''badcfgerrors'', LogicalSchemas = [] \<rparr>
       = (\<lparr> ProblemSeverity = [(''no-pk'', SeverityWarning)],
            AllowedCharSets = [''utf8mb4'', ''utf8''], AllowedEngines = [''myisam''] \<rparr>,
          Some (ConfigError
            (''Option errors must be a comma-separated list including these values: ''
             @ ''no-pk, bad-charset, bad-engine'')))
   \<and> map_of (ProblemSeverity (fst (OptionsForDir (exampleEnv execFails)
         \<lparr> Config = exampleConfig [''no-pk''] [''bogus'', ''no-pk''] (Inr None) (Inr None),
           RelPath = ''badcfgerrors'', LogicalSchemas = [] \<rparr>))) ''no-pk''
       \<noteq> Some SeverityError"
  by (simp add: OptionsForDir_def exampleEnv_def exampleConfig_def asciiToLower_def
        problemExists_def allProblemNames_def Let_def SeverityWarning_def SeverityError_def)

text \<open>
  Claim C9. The error path of OptionsForDir is not atomic. When it returns an error, the
  Options returned with it already hold the allow-charset and allow-engine lists, and its
  severity map is exactly what the writes for the tokens before the first unknown one
  (warnings list first, then errors list) leave: every one of these tokens has an entry.
\<close>

theorem OptionsForDir_error_is_not_atomic:
  assumes "snd (OptionsForDir env dir) = Some err"
  shows "AllowedCharSets (fst (OptionsForDir env dir)) =
           GetSlice (Config dir) ''allow-charset'' CHR '','' True
       \<and> AllowedEngines (fst (OptionsForDir env dir)) =
           GetSlice (Config dir) ''allow-engine'' CHR '','' True
       \<and> (\<exists>pre bad post.
             map (\<lambda>v. (v, SeverityWarning)) (GetSlice (Config dir) ''warnings'' CHR '','' True)
               @ map (\<lambda>v. (v, SeverityError)) (GetSlice (Config dir) ''errors'' CHR '','' True)
               = pre @ bad # post
           \<and> (\<forall>t\<in>set pre. problemExists env (ToLower env (fst t)))
           \<and> \<not> problemExists env (ToLower env (fst bad))
           \<and> ProblemSeverity (fst (OptionsForDir env dir)) =
               foldl (\<lambda>m t. AList.update (ToLower env (fst t)) (snd t) m) [] pre
           \<and> (\<forall>t\<in>set pre. map_of (ProblemSeverity (fst (OptionsForDir env dir)))
                               (ToLower env (fst t)) \<noteq> None))"
proof -
  from OptionsForDir_partial_map [OF assms] obtain pre bad post where
    *: "map (\<lambda>v. (v, SeverityWarning)) (GetSlice (Config dir) ''warnings'' CHR '','' True)
          @ map (\<lambda>v. (v, SeverityError)) (GetSlice (Config dir) ''errors'' CHR '','' True)
          = pre @ bad # post"
       "\<forall>t\<in>set pre. problemExists env (ToLower env (fst t))"
       "\<not> problemExists env (ToLower env (fst bad))"
       "ProblemSeverity (fst (OptionsForDir env dir)) =
          foldl (\<lambda>m t. AList.update (ToLower env (fst t)) (snd t) m) [] pre"
    by blast
  have "\<forall>t\<in>set pre. map_of (ProblemSeverity (fst (OptionsForDir env dir)))
                       (ToLower env (fst t)) \<noteq> None"
    by (simp add: *(4) map_of_eq_None_iff keys_foldl_update)
  with * OptionsForDir_allow_lists [of env dir] show ?thesis by blast
qed

theorem OptionsForDir_error_is_not_atomic_witness:
  "AllowedCharSets (fst (OptionsForDir (exampleEnv execFails)
          \<lparr> Config = exampleConfig [''no-pk'', ''bad-charset'']
                       [''no-pk'', ''bogus'', ''bad-engine''] (Inr None) (Inr None),
            RelPath = ''badcfgerrors'', LogicalSchemas = [] \<rparr>)) = [''utf8mb4'', ''utf8'']
   \<and> AllowedEngines (fst (OptionsForDir (exampleEnv execFails)
          \<lparr> Config = exampleConfig [''no-pk'', ''bad-charset'']
                       [''no-pk'', ''bogus'', ''bad-engine''] (Inr None) (Inr None),
            RelPath = ''badcfgerrors'', LogicalSchemas = [] \<rparr>)) = [''myisam'']
   \<and> ProblemSeverity (fst (OptionsForDir (exampleEnv execFails)
          \<lparr> Config = exampleConfig [''no-pk'', ''bad-charset'']
                       [''no-pk'', ''bogus'', ''bad-engine''] (Inr None) (Inr None),
            RelPath = ''badcfgerrors'', LogicalSchemas = [] \<rparr>))
       = [(''no-pk'', SeverityError), (''bad-charset'', SeverityWarning)]"
proof -
  let ?dir = "\<lparr> Config = exampleConfig [''no-pk'', ''bad-charset'']
                         [''no-pk'', ''bogus'', ''bad-engine''] (Inr None) (Inr None),
               RelPath = ''badcfgerrors'', LogicalSchemas = [] \<rparr>"
  have failed: "snd (OptionsForDir (exampleEnv execFails) ?dir) =
             Some (ConfigError
               (''Option errors must be a comma-separated list including these values: ''
                @ ''no-pk, bad-charset, bad-engine''))"
    by (simp add: OptionsForDir_def exampleEnv_def exampleConfig_def asciiToLower_def
          problemExists_def allProblemNames_def Let_def)
  from OptionsForDir_error_is_not_atomic [OF failed]
  have "AllowedCharSets (fst (OptionsForDir (exampleEnv execFails) ?dir)) =
          GetSlice (Config ?dir) ''allow-charset'' CHR '','' True"
   and "AllowedEngines (fst (OptionsForDir (exampleEnv execFails) ?dir)) =
          GetSlice (Config ?dir) ''allow-engine'' CHR '','' True"
    by blast+
  moreover have "ProblemSeverity (fst (OptionsForDir (exampleEnv execFails) ?dir))
       = [(''no-pk'', SeverityError), (''bad-charset'', SeverityWarning)]"
    by (simp add: OptionsForDir_def exampleEnv_def exampleConfig_def asciiToLower_def
          problemExists_def Let_def)
  ultimately show ?thesis by (simp add: exampleConfig_def)
qed

subsection \<open>LintDir\<close>

lemma foundIgnoredName_foldl:
  "foldl (\<lambda>found schemaName. if MatchString rx schemaName then True else found) b names
     = (b \<or> (\<exists>name\<in>set names. MatchString rx name))"
  by (induction names arbitrary: b) auto

lemma foundIgnoredName_iff:
  "foundIgnoredName rx names = (\<exists>name\<in>set names. MatchString rx name)"
  by (simp add: foundIgnoredName_def foundIgnoredName_foldl)


lemma lintStatementErrors_DebugLogs:
  "DebugLogs (lintStatementErrors env ignoreTable result errs) =
     DebugLogs result @
     map (\<lambda>stmtErr. ''Skipping '' @ ObjectKeyString env (ObjectKey_of stmtErr)
                     @ '' because ignore-table='' @ [CHR 0x27] @ fmt_s_Regexp ignoreTable
                     @ [CHR 0x27])
       (filter (\<lambda>stmtErr. ObjectType stmtErr = ObjectTypeTable
                           \<and> nonNilAndMatches ignoreTable (ObjectName stmtErr)) errs)"
  by (induction errs arbitrary: result) simp_all


lemma lintStatementErrors_FormatNotices:
  "FormatNotices (lintStatementErrors env ignoreTable result errs) = FormatNotices result"
  by (induction errs arbitrary: result) simp_all

lemma lintStatementErrors_Exceptions:
  "Exceptions (lintStatementErrors env ignoreTable result errs) = Exceptions result"
  by (induction errs arbitrary: result) simp_all

lemma lintProblems_untouched:
  "lintProblems env schema logicalSchema opts result ps = Inr r \<Longrightarrow>
   FormatNotices r = FormatNotices result \<and> DebugLogs r = DebugLogs result
   \<and> Exceptions r = Exceptions result"
proof (induction ps arbitrary: result)
  case Nil
  then show ?case by simp
next
  case (Cons p ps)
  obtain problemName severity where p: "p = (problemName, severity)" by (cases p)
  from Cons.prems p obtain detector where
    d: "map_of (problems env) problemName = Some detector"
    by (cases "map_of (problems env) problemName") auto
  show ?case
  proof (cases "severity = SeverityWarning")
    case True
    with Cons.prems p d
    have "lintProblems env schema logicalSchema opts
            (result\<lparr> Warnings := Warnings result @ detector schema logicalSchema opts \<rparr>) ps
          = Inr r"
      by simp
    from Cons.IH [OF this] show ?thesis by simp
  next
    case False
    with Cons.prems p d
    have "lintProblems env schema logicalSchema opts
            (result\<lparr> Errors := Errors result @ detector schema logicalSchema opts \<rparr>) ps
          = Inr r"
      by simp
    from Cons.IH [OF this] show ?thesis by simp
  qed
qed


lemma lintProblems_no_panic:
  "\<forall>k\<in>fst ` set ps. problemExists env k \<Longrightarrow>
   \<exists>r. lintProblems env schema logicalSchema opts result ps = Inr r"
proof (induction ps arbitrary: result)
  case Nil
  then show ?case by simp
next
  case (Cons p ps)
  obtain problemName severity where p: "p = (problemName, severity)" by (cases p)
  from Cons.prems p obtain detector where
    d: "map_of (problems env) problemName = Some detector"
    by (auto simp: problemExists_def)
  from Cons.prems have rest: "\<forall>k\<in>fst ` set ps. problemExists env k" by simp
  from Cons.IH [OF rest] p d show ?case by (simp add: Let_def)
qed

lemma lintFormat_FormatNotices:
  "FormatNotices (lintFormat env ignoreTable logicalSchema result defs) =
     FormatNotices result @
     map (\<lambda>(key, instCreateText).
            \<lparr> Statement = Creates logicalSchema key, LineOffset = 0,
              Summary = ''SQL statement should be reformatted'',
              Message = instCreateText @ snd (SplitTextBody env (Creates logicalSchema key)) \<rparr>)
       (filter (\<lambda>(key, instCreateText).
                  \<not> (Type key = ObjectTypeTable \<and> nonNilAndMatches ignoreTable (Name key))
                  \<and> instCreateText \<noteq> fst (SplitTextBody env (Creates logicalSchema key)))
          defs)"
  by (induction defs arbitrary: result) (simp_all add: Let_def split: prod.splits)

lemma lintFormat_DebugLogs:
  "DebugLogs (lintFormat env ignoreTable logicalSchema result defs) =
     DebugLogs result @
     map (\<lambda>(key, instCreateText).
            ''Skipping '' @ ObjectKeyString env key @ '' because ignore-table='' @ [CHR 0x27]
            @ fmt_s_Regexp ignoreTable @ [CHR 0x27])
       (filter (\<lambda>(key, instCreateText).
                  Type key = ObjectTypeTable \<and> nonNilAndMatches ignoreTable (Name key)) defs)"
  by (induction defs arbitrary: result) (simp_all add: Let_def split: prod.splits)



lemma lintFormat_Exceptions:
  "Exceptions (lintFormat env ignoreTable logicalSchema result defs) = Exceptions result"
  by (induction env ignoreTable logicalSchema result defs rule: lintFormat.induct)
     (simp_all add: Let_def split: prod.splits)

lemma OptionsForDir_keys_exist:
  assumes "snd (OptionsForDir env dir) = None"
  shows "\<forall>k\<in>fst ` set (ProblemSeverity (fst (OptionsForDir env dir))). problemExists env k"
proof -
  let ?ws = "GetSlice (Config dir) ''warnings'' CHR '','' True"
  let ?es = "GetSlice (Config dir) ''errors'' CHR '','' True"
  from OptionsForDir_success [OF assms]
  have valid: "\<forall>v\<in>set ?ws. problemExists env (ToLower env v)"
              "\<forall>v\<in>set ?es. problemExists env (ToLower env v)"
    and m: "ProblemSeverity (fst (OptionsForDir env dir)) =
              foldl (\<lambda>m v. AList.update (ToLower env v) SeverityError m)
                (foldl (\<lambda>m v. AList.update (ToLower env v) SeverityWarning m) [] ?ws) ?es"
    by blast+
  have "fst ` set (ProblemSeverity (fst (OptionsForDir env dir))) =
          ToLower env ` set ?ws \<union> ToLower env ` set ?es"
    unfolding m
    by (simp add: keys_foldl_update [where f = "ToLower env" and g = "\<lambda>_. SeverityError"]
          keys_foldl_update [where f = "ToLower env" and g = "\<lambda>_. SeverityWarning"])
  with valid show ?thesis by auto
qed

lemma LintDir_config_ok:
  assumes "GetRegexp (Config dir) ''ignore-table'' = Inr ignoreTable"
      and "GetRegexp (Config dir) ''ignore-schema'' = Inr ignoreSchema"
      and "snd (OptionsForDir env dir) = None"
  shows "LintDir env dir wsOpts =
           lintLogicalSchemas env dir wsOpts ignoreTable ignoreSchema
             (fst (OptionsForDir env dir)) emptyResult (LogicalSchemas dir)"
proof -
  from assms(3) obtain opts where "OptionsForDir env dir = (opts, None)"
    by (cases "OptionsForDir env dir") auto
  with assms(1,2) show ?thesis by (simp add: LintDir_def)
qed

lemma lintLogicalSchemas_no_panic:
  assumes "\<forall>k\<in>fst ` set (ProblemSeverity opts). problemExists env k"
  shows "\<exists>r. lintLogicalSchemas env dir wsOpts ignoreTable ignoreSchema opts result lss = Inr r"
proof (induction lss arbitrary: result)
  case Nil
  show ?case by simp
next
  case (Cons logicalSchema rest)
  show ?case
  proof (cases "schemaIgnored ignoreSchema (GetSlice (Config dir) ''schema'' CHR '','' True)")
    case True
    then show ?thesis by simp
  next
    case False
    show ?thesis
    proof (cases "ExecLogicalSchema env logicalSchema wsOpts")
      case (Inl err)
      with False Cons.IH show ?thesis by simp
    next
      case (Inr ok)
      obtain schema statementErrors where ok: "ok = (schema, statementErrors)" by (cases ok)
      from lintProblems_no_panic [OF assms] obtain result' where
        "lintProblems env schema logicalSchema opts
           (lintStatementErrors env ignoreTable result statementErrors) (ProblemSeverity opts)
         = Inr result'"
        by blast
      with False Inr ok Cons.IH show ?thesis by simp
    qed
  qed
qed



lemma lintLogicalSchemas_fields:
  assumes "\<not> schemaIgnored ignoreSchema (GetSlice (Config dir) ''schema'' CHR '','' True)"
  shows "lintLogicalSchemas env dir wsOpts ignoreTable ignoreSchema opts result lss = Inr r \<Longrightarrow>
    FormatNotices r = FormatNotices result @
      concat (map (\<lambda>logicalSchema.
        case ExecLogicalSchema env logicalSchema wsOpts of
          Inl err \<Rightarrow> []
        | Inr (schema, statementErrors) \<Rightarrow>
            map (\<lambda>(key, instCreateText).
                   \<lparr> Statement = Creates logicalSchema key, LineOffset = 0,
                     Summary = ''SQL statement should be reformatted'',
                     Message = instCreateText
                               @ snd (SplitTextBody env (Creates logicalSchema key)) \<rparr>)
              (filter (\<lambda>(key, instCreateText).
                         \<not> (Type key = ObjectTypeTable \<and> nonNilAndMatches ignoreTable (Name key))
                         \<and> instCreateText \<noteq> fst (SplitTextBody env (Creates logicalSchema key)))
                 (ObjectDefinitions env schema))) lss)
    \<and> DebugLogs r = DebugLogs result @
      concat (map (\<lambda>logicalSchema.
        case ExecLogicalSchema env logicalSchema wsOpts of
          Inl err \<Rightarrow> []
        | Inr (schema, statementErrors) \<Rightarrow>
            map (\<lambda>stmtErr. ''Skipping '' @ ObjectKeyString env (ObjectKey_of stmtErr)
                            @ '' because ignore-table='' @ [CHR 0x27] @ fmt_s_Regexp ignoreTable
                            @ [CHR 0x27])
              (filter (\<lambda>stmtErr. ObjectType stmtErr = ObjectTypeTable
                                  \<and> nonNilAndMatches ignoreTable (ObjectName stmtErr))
                 statementErrors)
            @ map (\<lambda>(key, instCreateText).
                     ''Skipping '' @ ObjectKeyString env key @ '' because ignore-table=''
                     @ [CHR 0x27] @ fmt_s_Regexp ignoreTable @ [CHR 0x27])
                (filter (\<lambda>(key, instCreateText).
                           Type key = ObjectTypeTable \<and> nonNilAndMatches ignoreTable (Name key))
                   (ObjectDefinitions env schema))) lss)
    \<and> Exceptions r = Exceptions result @
      concat (map (\<lambda>logicalSchema.
        case ExecLogicalSchema env logicalSchema wsOpts of
          Inl err \<Rightarrow> [OtherError (''Skipping schema in '' @ RelPath dir @ '' due to error: ''
                                  @ Error err)]
        | Inr ok \<Rightarrow> []) lss)"
proof (induction lss arbitrary: result)
  case Nil
  then show ?case by simp
next
  case (Cons logicalSchema rest)
  show ?case
  proof (cases "ExecLogicalSchema env logicalSchema wsOpts")
    case (Inl err)
    let ?result = "result\<lparr> Exceptions := Exceptions result @
                [OtherError (''Skipping schema in '' @ RelPath dir @ '' due to error: ''
                             @ Error err)] \<rparr>"
    from assms Inl Cons.prems
    have "lintLogicalSchemas env dir wsOpts ignoreTable ignoreSchema opts ?result rest = Inr r"
      by simp
    from Cons.IH [OF this] Inl show ?thesis by simp
  next
    case (Inr ok)
    obtain schema statementErrors where ok: "ok = (schema, statementErrors)" by (cases ok)
    let ?result1 = "lintStatementErrors env ignoreTable result statementErrors"
    from assms Inr ok Cons.prems obtain result' where
      p: "lintProblems env schema logicalSchema opts ?result1 (ProblemSeverity opts)
            = Inr result'"
      and rest: "lintLogicalSchemas env dir wsOpts ignoreTable ignoreSchema opts
              (lintFormat env ignoreTable logicalSchema result' (ObjectDefinitions env schema))
              rest = Inr r"
      by (cases "lintProblems env schema logicalSchema opts ?result1 (ProblemSeverity opts)")
         auto
    note u = lintProblems_untouched [OF p]
    from Cons.IH [OF rest] Inr ok u show ?thesis
      by (simp add: lintFormat_FormatNotices lintFormat_DebugLogs lintFormat_Exceptions
            lintStatementErrors_FormatNotices lintStatementErrors_DebugLogs
            lintStatementErrors_Exceptions)
  qed
qed

lemma lintLogicalSchemas_ignored:
  assumes "schemaIgnored ignoreSchema (GetSlice (Config dir) ''schema'' CHR '','' True)"
  shows "lintLogicalSchemas env dir wsOpts ignoreTable ignoreSchema opts result
           (logicalSchema # rest) =
         Inr (result\<lparr> DebugLogs := DebugLogs result @
                [''Skipping schema in '' @ RelPath dir @ '' because ignore-schema=''
                 @ [CHR 0x27] @ fmt_s_Regexp ignoreSchema @ [CHR 0x27]] \<rparr>)"
  using assms by simp

text \<open>
  Claim C2. When the ignore-table or the ignore-schema value does not compile, or
  OptionsForDir fails, LintDir returns at once: the Result holds one Exception, the
  ConfigError made of the text of one of these failures, and nothing else.
\<close>

theorem LintDir_bad_config:
  assumes "(\<exists>e. GetRegexp (Config dir) ''ignore-table'' = Inl e)
         \<or> (\<exists>e. GetRegexp (Config dir) ''ignore-schema'' = Inl e)
         \<or> (\<exists>e. snd (OptionsForDir env dir) = Some e)"
  shows "\<exists>e. (GetRegexp (Config dir) ''ignore-table'' = Inl e
              \<or> GetRegexp (Config dir) ''ignore-schema'' = Inl e
              \<or> snd (OptionsForDir env dir) = Some e)
            \<and> LintDir env dir wsOpts =
                Inr \<lparr> Errors = [], Warnings = [], FormatNotices = [], DebugLogs = [],
                      Exceptions = [ConfigError (Error e)] \<rparr>"
proof (cases "GetRegexp (Config dir) ''ignore-table''")
  case (Inl e)
  then have "LintDir env dir wsOpts = Inr (BadConfigResult e)"
    by (simp add: LintDir_def)
  with Inl show ?thesis
    by (cases e) (auto simp: BadConfigResult_def emptyResult_def)
next
  case table: (Inr ignoreTable)
  show ?thesis
  proof (cases "GetRegexp (Config dir) ''ignore-schema''")
    case (Inl e)
    with table have "LintDir env dir wsOpts = Inr (BadConfigResult e)"
      by (simp add: LintDir_def)
    with Inl show ?thesis
      by (cases e) (auto simp: BadConfigResult_def emptyResult_def)
  next
    case schema: (Inr ignoreSchema)
    from assms table schema obtain e where e: "snd (OptionsForDir env dir) = Some e"
      by auto
    then obtain opts where "OptionsForDir env dir = (opts, Some e)"
      by (cases "OptionsForDir env dir") auto
    with table schema have "LintDir env dir wsOpts = Inr (BadConfigResult e)"
      by (simp add: LintDir_def)
    with e show ?thesis
      by (cases e) (auto simp: BadConfigResult_def emptyResult_def)
  qed
qed

theorem LintDir_bad_config_witness:
  "LintDir (exampleEnv execExample)
     \<lparr> Config = exampleConfig [''no-pk''] [] (Inr None)
                  (Inl (OtherError ''error parsing regexp: missing closing ): `(`'')),
       RelPath = ''product'', LogicalSchemas = [productSchema] \<rparr> ()
   = Inr \<lparr> Errors = [], Warnings = [], FormatNotices = [], DebugLogs = [],
           Exceptions = [ConfigError ''error parsing regexp: missing closing ): `(`''] \<rparr>"
  using LintDir_bad_config
          [of "\<lparr> Config = exampleConfig [''no-pk''] [] (Inr None)
                  (Inl (OtherError ''error parsing regexp: missing closing ): `(`'')),
                 RelPath = ''product'', LogicalSchemas = [productSchema] \<rparr>"
              "exampleEnv execExample" "()"]
  by (simp add: exampleConfig_def OptionsForDir_def exampleEnv_def asciiToLower_def
        problemExists_def Let_def)

text \<open>
  Claim C1, as the code has it. When the ignore-table value compiles, OptionsForDir
  succeeds, an ignore-schema pattern is set and matches one of the literal schema names of
  the directory, and the directory has a logical schema, LintDir returns at the first
  logical schema: the Result holds one debug log entry
  noting the skip, no finding and no exception, whatever the workspace would have
  returned, and no logical schema of the directory is processed.
\<close>

theorem LintDir_ignored_schema_returns:
  assumes "GetRegexp (Config dir) ''ignore-table'' = Inr ignoreTable"
      and "GetRegexp (Config dir) ''ignore-schema'' = Inr (Some rx)"
      and "snd (OptionsForDir env dir) = None"
      and "\<exists>name\<in>set (GetSlice (Config dir) ''schema'' CHR '','' True). MatchString rx name"
      and "LogicalSchemas dir \<noteq> []"
  shows "LintDir env dir wsOpts =
           Inr \<lparr> Errors = [], Warnings = [], FormatNotices = [],
                 DebugLogs = [''Skipping schema in '' @ RelPath dir @ '' because ignore-schema=''
                              @ [CHR 0x27] @ rx_String rx @ [CHR 0x27]],
                 Exceptions = [] \<rparr>"
proof -
  from assms(5) obtain logicalSchema rest where
    lss: "LogicalSchemas dir = logicalSchema # rest"
    by (cases "LogicalSchemas dir") auto
  from assms(4) have ignored:
    "schemaIgnored (Some rx) (GetSlice (Config dir) ''schema'' CHR '','' True)"
    by (simp add: foundIgnoredName_iff)
  have "LintDir env dir wsOpts =
          lintLogicalSchemas env dir wsOpts ignoreTable (Some rx) (fst (OptionsForDir env dir))
            emptyResult (logicalSchema # rest)"
    using LintDir_config_ok [OF assms(1,2,3)] lss by simp
  also have "\<dots> = Inr (emptyResult\<lparr> DebugLogs := DebugLogs emptyResult @
                [''Skipping schema in '' @ RelPath dir @ '' because ignore-schema=''
                 @ [CHR 0x27] @ fmt_s_Regexp (Some rx) @ [CHR 0x27]] \<rparr>)"
    by (rule lintLogicalSchemas_ignored [OF ignored])
  finally show ?thesis by (simp add: emptyResult_def)
qed

theorem LintDir_ignored_schema_returns_witness:
  "LintDir (exampleEnv execExample)
     \<lparr> Config = exampleConfig [''no-pk''] [] (Inr None) (Inr (Some analyticsSchema)),
       RelPath = ''product'', LogicalSchemas = [productSchema, productSchema] \<rparr> ()
   = Inr \<lparr> Errors = [], Warnings = [], FormatNotices = [],
           DebugLogs = [''Skipping schema in product because ignore-schema=''
                        @ [CHR 0x27] @ ''^analytics$'' @ [CHR 0x27]],
           Exceptions = [] \<rparr>"
  using LintDir_ignored_schema_returns
          [of "\<lparr> Config = exampleConfig [''no-pk''] [] (Inr None) (Inr (Some analyticsSchema)),
                 RelPath = ''product'', LogicalSchemas = [productSchema, productSchema] \<rparr>"
              None analyticsSchema "exampleEnv execExample" "()"]
  by (simp add: exampleConfig_def OptionsForDir_def exampleEnv_def asciiToLower_def
        problemExists_def Let_def analyticsSchema_def)

text \<open>
  Claim C1, as the spec states it, fails. In a directory with two logical schemas whose
  schema names match the ignore-schema pattern, the loop does not go on to the second
  logical schema after logging the skip of the first: it returns with one debug log entry,
  where going on would have logged a second skip.
\<close>

theorem LintDir_ignored_schema_counterexample:
  "schemaIgnored (Some analyticsSchema)
     (GetSlice (exampleConfig [''no-pk''] [] (Inr None) (Inr (Some analyticsSchema)))
        ''schema'' CHR '','' True)
   \<and> lintLogicalSchemas (exampleEnv execExample)
       \<lparr> Config = exampleConfig [''no-pk''] [] (Inr None) (Inr (Some analyticsSchema)),
         RelPath = ''product'', LogicalSchemas = [productSchema, productSchema] \<rparr> ()
       None (Some analyticsSchema)
       \<lparr> ProblemSeverity = [(''no-pk'', SeverityWarning)],
         AllowedCharSets = [''utf8mb4'', ''utf8''], AllowedEngines = [''myisam''] \<rparr>
       emptyResult [productSchema, productSchema]
     \<noteq> lintLogicalSchemas (exampleEnv execExample)
       \<lparr> Config = exampleConfig [''no-pk''] [] (Inr None) (Inr (Some analyticsSchema)),
         RelPath = ''product'', LogicalSchemas = [productSchema, productSchema] \<rparr> ()
       None (Some analyticsSchema)
       \<lparr> ProblemSeverity = [(''no-pk'', SeverityWarning)],
         AllowedCharSets = [''utf8mb4'', ''utf8''], AllowedEngines = [''myisam''] \<rparr>
       (emptyResult\<lparr> DebugLogs := DebugLogs emptyResult @
          [''Skipping schema in product because ignore-schema=''
           @ [CHR 0x27] @ ''^analytics$'' @ [CHR 0x27]] \<rparr>)
       [productSchema]"
  by (simp add: exampleConfig_def analyticsSchema_def foundIgnoredName_def emptyResult_def)



text \<open>
  Claim C8. When the configuration is sound and no schema name is ignored, LintDir
  returns a Result whose FormatNotices are, for each logical schema that materializes and
  in the order of the schema's object definitions, one Annotation for every object that is
  not a table matched by ignore-table and whose canonical text differs from the body of
  its filesystem statement: summary \<open>SQL statement should be reformatted\<close>, message the
  canonical text followed by the filesystem statement's suffix. An object whose canonical
  text equals the body gives no notice; a table matched by ignore-table gives a debug log
  entry, which the DebugLogs hold next to those of the skipped statement errors.
\<close>

theorem LintDir_reformat_notices:
  assumes "GetRegexp (Config dir) ''ignore-table'' = Inr ignoreTable"
      and "GetRegexp (Config dir) ''ignore-schema'' = Inr ignoreSchema"
      and "snd (OptionsForDir env dir) = None"
      and "\<not> schemaIgnored ignoreSchema (GetSlice (Config dir) ''schema'' CHR '','' True)"
  shows "\<exists>r. LintDir env dir wsOpts = Inr r
    \<and> FormatNotices r =
      concat (map (\<lambda>logicalSchema.
        case ExecLogicalSchema env logicalSchema wsOpts of
          Inl err \<Rightarrow> []
        | Inr (schema, statementErrors) \<Rightarrow>
            map (\<lambda>(key, instCreateText).
                   \<lparr> Statement = Creates logicalSchema key, LineOffset = 0,
                     Summary = ''SQL statement should be reformatted'',
                     Message = instCreateText
                               @ snd (SplitTextBody env (Creates logicalSchema key)) \<rparr>)
              (filter (\<lambda>(key, instCreateText).
                         \<not> (Type key = ObjectTypeTable \<and> nonNilAndMatches ignoreTable (Name key))
                         \<and> instCreateText \<noteq> fst (SplitTextBody env (Creates logicalSchema key)))
                 (ObjectDefinitions env schema))) (LogicalSchemas dir))
    \<and> DebugLogs r =
      concat (map (\<lambda>logicalSchema.
        case ExecLogicalSchema env logicalSchema wsOpts of
          Inl err \<Rightarrow> []
        | Inr (schema, statementErrors) \<Rightarrow>
            map (\<lambda>stmtErr. ''Skipping '' @ ObjectKeyString env (ObjectKey_of stmtErr)
                            @ '' because ignore-table='' @ [CHR 0x27] @ fmt_s_Regexp ignoreTable
                            @ [CHR 0x27])
              (filter (\<lambda>stmtErr. ObjectType stmtErr = ObjectTypeTable
                                  \<and> nonNilAndMatches ignoreTable (ObjectName stmtErr))
                 statementErrors)
            @ map (\<lambda>(key, instCreateText).
                     ''Skipping '' @ ObjectKeyString env key @ '' because ignore-table=''
                     @ [CHR 0x27] @ fmt_s_Regexp ignoreTable @ [CHR 0x27])
                (filter (\<lambda>(key, instCreateText).
                           Type key = ObjectTypeTable \<and> nonNilAndMatches ignoreTable (Name key))
                   (ObjectDefinitions env schema))) (LogicalSchemas dir))"
proof -
  note keys = OptionsForDir_keys_exist [OF assms(3)]
  from lintLogicalSchemas_no_panic [OF keys] obtain r where
    r: "lintLogicalSchemas env dir wsOpts ignoreTable ignoreSchema (fst (OptionsForDir env dir))
          emptyResult (LogicalSchemas dir) = Inr r"
    by blast
  then have run: "LintDir env dir wsOpts = Inr r"
    using LintDir_config_ok [OF assms(1,2,3)] by simp
  have start: "FormatNotices emptyResult = []" "DebugLogs emptyResult = []"
    by (simp_all add: emptyResult_def)
  from lintLogicalSchemas_fields [OF assms(4) r] run show ?thesis
    unfolding start append_Nil by blast
qed

theorem LintDir_reformat_notices_witness:
  "\<exists>r. LintDir (exampleEnv execExample)
          \<lparr> Config = exampleConfig [''no-pk''] [] (Inr (Some underscoreTables)) (Inr None),
            RelPath = ''product'', LogicalSchemas = [productSchema] \<rparr> () = Inr r
     \<and> FormatNotices r =
         [\<lparr> Statement = Some \<lparr> File = ''users.sql'', LineNo = 1, CharNo = 1,
                               Text = ''CREATE TABLE users (id int);'' \<rparr>,
            LineOffset = 0, Summary = ''SQL statement should be reformatted'',
            Message = ''CREATE TABLE users (id int(11));'' \<rparr>]
     \<and> DebugLogs r = [''Skipping _tmp because ignore-table='' @ [CHR 0x27] @ ''^_'' @ [CHR 0x27]]"
proof -
  let ?env = "exampleEnv execExample"
  let ?dir = "\<lparr> Config = exampleConfig [''no-pk''] [] (Inr (Some underscoreTables)) (Inr None),
               RelPath = ''product'', LogicalSchemas = [productSchema] \<rparr>"
  have table: "GetRegexp (Config ?dir) ''ignore-table'' = Inr (Some underscoreTables)"
    by (simp add: exampleConfig_def)
  have schema: "GetRegexp (Config ?dir) ''ignore-schema'' = Inr None"
    by (simp add: exampleConfig_def)
  have ok: "snd (OptionsForDir ?env ?dir) = None"
    by (simp add: OptionsForDir_def exampleEnv_def exampleConfig_def asciiToLower_def
          problemExists_def Let_def)
  have notIgnored: "\<not> schemaIgnored None (GetSlice (Config ?dir) ''schema'' CHR '','' True)"
    by simp
  have exec: "ExecLogicalSchema ?env productSchema () =
                Inr ([(tableKey ''users'', ''CREATE TABLE users (id int(11))''),
                      (tableKey ''posts'', ''CREATE TABLE posts (id int(11))''),
                      (tableKey ''_tmp'', ''CREATE TABLE _tmp (x int(11))'')], [])"
    by (simp add: exampleEnv_def execExample_def productSchema_def)
  from LintDir_reformat_notices [OF table schema ok notIgnored, of "()"]
  show ?thesis
    by (simp add: exec)
       (simp add: exampleEnv_def productSchema_def tableKey_def underscoreTables_def Let_def)
qed

end
